theory Spec2Isabelle
  imports Main
begin

section \<open>The HTTP layer of the monitor backend (backend/http.go)\<close>

text \<open>
  The three handlers of \<^verbatim>\<open>http.go\<close> are embedded as state-passing functions over the
  observable state of one handler invocation: the response writer and the log of the
  calls the handler makes to its collaborators, in the order it makes them.
  A Go \<^verbatim>\<open>error\<close> is modelled by its message (the handlers only ever format it with
  \<^verbatim>\<open>%s\<close> or \<^verbatim>\<open>.Error()\<close>), a pointer by an option (\<open>None\<close> is \<^verbatim>\<open>nil\<close>).
\<close>

subsection \<open>Server and ServerConfig\<close>

record ('r, 'b) Server =
  historicalReader :: "'r option"
  centralBroker :: "'b option"

record ('r, 'b) ServerConfig =
  SSLRedirect :: bool
  Environment :: string
  Hostname :: string
  Port :: string
  StaticPath :: string
  MonitorHistoricalReader :: "'r option"
  CentralBroker :: "'b option"

text \<open>
  \<^verbatim>\<open>http.Server\<close> as far as \<^verbatim>\<open>NewServer\<close> fills it: the address, and the receiver
  \<^verbatim>\<open>server\<close> to which the three API routes are bound (routing and middleware are
  library code and are not modelled).
\<close>

record ('r, 'b) http_Server =
  Addr :: string
  Handler :: "('r, 'b) Server"

text \<open>\<^verbatim>\<open>net.JoinHostPort\<close>: a host that contains a colon is bracketed.\<close>

definition JoinHostPort :: "string \<Rightarrow> string \<Rightarrow> string" where
  "JoinHostPort host port =
     (if CHR '':'' \<in> set host then ''['' @ host @ '']:'' @ port else host @ '':'' @ port)"

definition NewServer :: "('r, 'b) ServerConfig \<Rightarrow> ('r, 'b) http_Server" where
  "NewServer config =
     (let server = \<lparr> historicalReader = MonitorHistoricalReader config, centralBroker = None \<rparr>
      in \<lparr> Addr = JoinHostPort (Hostname config) (Port config), Handler = server \<rparr>)"

subsection \<open>The response writer and the log of calls\<close>

datatype ('b, 's) call =
    CallWriteHeader nat
  | CallHeaderSet string string
  | CallWrite string
  | CallFlush
  | CallNewSubscriber "'b option" "string list"
  | CallListen 's
  | CallLog string
  | CallSleep nat
  | CallReadRaw string
  | CallReadHourly string
  | CallReadDaily string

text \<open>
  \<open>header\<close> is the map behind \<^verbatim>\<open>w.Header()\<close>; \<open>status\<close> is the status line once it is
  committed (\<open>None\<close> before) and \<open>sent_header\<close> the headers committed with it; \<open>body\<close>
  collects the bytes the handler passes to \<^verbatim>\<open>Write\<close>; \<open>calls\<close> is the log.
  \<open>is_flusher\<close> says whether the writer implements \<^verbatim>\<open>http.Flusher\<close>.
\<close>

record ('b, 's) exchange =
  is_flusher :: bool
  header :: "string \<rightharpoonup> string"
  status :: "nat option"
  sent_header :: "string \<rightharpoonup> string"
  body :: string
  calls :: "('b, 's) call list"

definition fresh :: "bool \<Rightarrow> ('b, 's) exchange" where
  "fresh f = \<lparr> is_flusher = f, header = Map.empty, status = None,
               sent_header = Map.empty, body = [], calls = [] \<rparr>"

definition StatusOK :: nat where "StatusOK = 200"
definition StatusBadRequest :: nat where "StatusBadRequest = 400"
definition StatusPreconditionFailed :: nat where "StatusPreconditionFailed = 412"
definition StatusInternalServerError :: nat where "StatusInternalServerError = 500"

definition emit :: "('b, 's) call \<Rightarrow> ('b, 's) exchange \<Rightarrow> ('b, 's) exchange" where
  "emit c w = w\<lparr> calls := calls w @ [c] \<rparr>"

text \<open>
  The contract of \<^verbatim>\<open>net/http\<close>'s writer: the first \<^verbatim>\<open>WriteHeader\<close> commits the status
  together with the headers set so far, a later one changes nothing; \<^verbatim>\<open>Write\<close> and
  \<^verbatim>\<open>Flush\<close> commit status 200 first when none is committed yet.
\<close>

definition commit :: "nat \<Rightarrow> ('b, 's) exchange \<Rightarrow> ('b, 's) exchange" where
  "commit code w =
     (case status w of
        None \<Rightarrow> w\<lparr> status := Some code, sent_header := header w \<rparr>
      | Some _ \<Rightarrow> w)"

definition WriteHeader :: "nat \<Rightarrow> ('b, 's) exchange \<Rightarrow> ('b, 's) exchange" where
  "WriteHeader code w = commit code (emit (CallWriteHeader code) w)"

definition Header_Set :: "string \<Rightarrow> string \<Rightarrow> ('b, 's) exchange \<Rightarrow> ('b, 's) exchange" where
  "Header_Set k v w = emit (CallHeaderSet k v) (w\<lparr> header := (header w)(k \<mapsto> v) \<rparr>)"

definition Write :: "string \<Rightarrow> ('b, 's) exchange \<Rightarrow> ('b, 's) exchange" where
  "Write bs w = (let w = commit StatusOK (emit (CallWrite bs) w) in w\<lparr> body := body w @ bs \<rparr>)"

definition Flush :: "('b, 's) exchange \<Rightarrow> ('b, 's) exchange" where
  "Flush w = commit StatusOK (emit CallFlush w)"

definition Printf :: "string \<Rightarrow> ('b, 's) exchange \<Rightarrow> ('b, 's) exchange" where
  "Printf msg w = emit (CallLog msg) w"

definition Sleep :: "nat \<Rightarrow> ('b, 's) exchange \<Rightarrow> ('b, 's) exchange" where
  "Sleep ms w = emit (CallSleep ms) w"

subsection \<open>Requests and library functions\<close>

text \<open>\<^verbatim>\<open>r.URL.Query()\<close> is a \<^verbatim>\<open>url.Values\<close>, a map from a key to the list of its values.\<close>

record request =
  query :: "string \<rightharpoonup> string list"

text \<open>\<^verbatim>\<open>url.Values.Get\<close>: the first value of the key, the empty string when there is none.\<close>

definition Get :: "(string \<rightharpoonup> string list) \<Rightarrow> string \<Rightarrow> string" where
  "Get v key = (case v key of None \<Rightarrow> [] | Some [] \<Rightarrow> [] | Some (x # _) \<Rightarrow> x)"

text \<open>\<^verbatim>\<open>strings.Split(s, ",")\<close>, for a separator of one byte.\<close>

fun Split :: "string \<Rightarrow> char \<Rightarrow> string list" where
  "Split [] sep = [[]]"
| "Split (c # cs) sep =
     (if c = sep then [] # Split cs sep
      else (case Split cs sep of [] \<Rightarrow> [[c]] | p # ps \<Rightarrow> (c # p) # ps))"

fun Contains :: "'a list \<Rightarrow> 'a \<Rightarrow> bool" where
  "Contains [] v = False"
| "Contains (x # xs) v = (if x = v then True else Contains xs v)"

subsection \<open>Collaborators\<close>

text \<open>
  What the handlers call outside \<^verbatim>\<open>http.go\<close> is a parameter of the model: the global
  \<^verbatim>\<open>monitorIds\<close>, \<^verbatim>\<open>NewSubscriber\<close>, the three read methods of the historical reader, and
  \<^verbatim>\<open>json.Marshal\<close> at the three types it is used at (a sample, the map with the single
  key \<^verbatim>\<open>error\<close>, and the snapshot document whose \<^verbatim>\<open>metadata\<close> is the zero \<^verbatim>\<open>Monitor\<close>).
  Each returns \<open>Inl\<close> of the error message or \<open>Inr\<close> of the result.
\<close>

record ('a, 'b, 'r, 's) env =
  monitorIds :: "string list"
  NewSubscriber :: "'b option \<Rightarrow> string list \<Rightarrow> string + 's"
  ReadRawHistorical :: "'r option \<Rightarrow> string \<Rightarrow> string + 'a list"
  ReadHourlyHistorical :: "'r option \<Rightarrow> string \<Rightarrow> string + 'a list"
  ReadDailyHistorical :: "'r option \<Rightarrow> string \<Rightarrow> string + 'a list"
  Marshal_sample :: "'a \<Rightarrow> string + string"
  Marshal_error :: "string \<Rightarrow> string + string"
  Marshal_snapshot :: "'a list \<Rightarrow> string + string"

subsection \<open>The delivery loop\<close>

text \<open>
  One \<open>poll\<close> is what one execution of the \<^verbatim>\<open>select\<close> statement finds: whether the
  request context is cancelled, the sample ready on the channel that this iteration's
  \<^verbatim>\<open>Listen\<close> call returned (if any), the scheduler's choice when both cases can
  proceed, and the error of the \<^verbatim>\<open>Write\<close> the iteration performs (if it performs one
  and it fails).
\<close>

record 'a poll =
  ctx_done :: bool
  ready :: "'a option"
  pick_done :: bool
  write_err :: "string option"

datatype 'a selected = CaseDone | CaseRecv 'a | CaseDefault

text \<open>
  Go's \<^verbatim>\<open>select\<close> with a \<^verbatim>\<open>default\<close> case never blocks: it takes a case that can
  proceed (either one when both can), and \<^verbatim>\<open>default\<close> when none can.
\<close>

definition select :: "'a poll \<Rightarrow> 'a selected" where
  "select p =
     (case ready p of
        None \<Rightarrow> if ctx_done p then CaseDone else CaseDefault
      | Some d \<Rightarrow> if ctx_done p \<and> pick_done p then CaseDone else CaseRecv d)"

datatype outcome = Returned | Running

definition nl :: char where "nl = CHR 0x0A"

text \<open>The body of the receive case (lines 96-106 and 165-175).\<close>

definition deliver ::
  "('a, 'b, 'r, 's) env \<Rightarrow> 'a \<Rightarrow> string option \<Rightarrow> ('b, 's) exchange \<Rightarrow> ('b, 's) exchange" where
  "deliver e d werr w =
     (let (marshaled, w) =
            (case Marshal_sample e d of
               Inl err \<Rightarrow> ([], Printf (''failed to marshal data: '' @ err) w)
             | Inr bs \<Rightarrow> (bs, w));
          w = Write (''data: '' @ marshaled @ [nl, nl]) w;
          w = (case werr of
                 Some err \<Rightarrow> Printf (''failed to write data: '' @ err) w
               | None \<Rightarrow> w)
      in Flush w)"

text \<open>
  The \<^verbatim>\<open>for { select { ... } }\<close> loop of both streaming handlers, run against the polls
  the environment presents. The channel operand \<^verbatim>\<open>subscriber.Listen(r.Context())\<close> is
  evaluated on entering every \<^verbatim>\<open>select\<close>. The loop returns only through the
  cancellation case; when the polls are used up it is still \<open>Running\<close>.
\<close>

fun stream ::
  "('a, 'b, 'r, 's) env \<Rightarrow> 's \<Rightarrow> 'a poll list \<Rightarrow> ('b, 's) exchange
     \<Rightarrow> ('b, 's) exchange \<times> outcome" where
  "stream e sub [] w = (w, Running)"
| "stream e sub (p # ps) w =
     (case select p of
        CaseDone \<Rightarrow> (emit (CallListen sub) w, Returned)
      | CaseRecv d \<Rightarrow> stream e sub ps (deliver e d (write_err p) (emit (CallListen sub) w))
      | CaseDefault \<Rightarrow> stream e sub ps (Sleep 10 (emit (CallListen sub) w)))"

subsection \<open>The handlers\<close>

text \<open>Lines 70-76 and 115-121.\<close>

definition not_flusher :: "('b, 's) exchange \<Rightarrow> ('b, 's) exchange" where
  "not_flusher w =
     (let w = WriteHeader StatusPreconditionFailed w;
          w = Header_Set ''Content-Type'' ''application/json'' w
      in Write ''{\"error\": \"not flusher\"}'' w)"

text \<open>Lines 80-88 and 149-157: the response to a failed \<^verbatim>\<open>NewSubscriber\<close>.\<close>

definition subscribe_failed ::
  "('a, 'b, 'r, 's) env \<Rightarrow> string \<Rightarrow> ('b, 's) exchange \<Rightarrow> ('b, 's) exchange" where
  "subscribe_failed e err w =
     (let w = WriteHeader StatusInternalServerError w;
          w = Header_Set ''Content-Type'' ''application/json'' w
      in case Marshal_error e (''failed to subscribe to endpoints: '' @ err) of
           Inl _ \<Rightarrow> Write ''{\"error\": \"internal server error\"}'' w
         | Inr errBytes \<Rightarrow> Write errBytes w)"

definition snapshotOverview ::
  "('a, 'b, 'r, 's) env \<Rightarrow> ('r, 'b) Server \<Rightarrow> 'a poll list \<Rightarrow> ('b, 's) exchange
     \<Rightarrow> ('b, 's) exchange \<times> outcome" where
  "snapshotOverview e s polls w =
     (if \<not> is_flusher w then (not_flusher w, Returned)
      else
        let w = emit (CallNewSubscriber (centralBroker s) (monitorIds e)) w
        in case NewSubscriber e (centralBroker s) (monitorIds e) of
             Inl err \<Rightarrow> (subscribe_failed e err w, Returned)
           | Inr subscriber \<Rightarrow> stream e subscriber polls w)"

text \<open>
  The loop of lines 133-140 over the wanted ids: \<open>False\<close> when it meets an id that
  \<^verbatim>\<open>monitorIds\<close> does not contain (the handler then returns), \<open>True\<close> when it runs to
  the end.
\<close>

fun all_known :: "string list \<Rightarrow> string list \<Rightarrow> bool" where
  "all_known known [] = True"
| "all_known known (i # ids) = (if \<not> Contains known i then False else all_known known ids)"

definition snapshotBy ::
  "('a, 'b, 'r, 's) env \<Rightarrow> ('r, 'b) Server \<Rightarrow> request \<Rightarrow> 'a poll list \<Rightarrow> ('b, 's) exchange
     \<Rightarrow> ('b, 's) exchange \<times> outcome" where
  "snapshotBy e s r polls w =
     (if \<not> is_flusher w then (not_flusher w, Returned)
      else
        let ids = Get (query r) ''ids'' in
        if ids = [] then
          (let w = WriteHeader StatusBadRequest w;
               w = Header_Set ''Content-Type'' ''application/json'' w
           in (Write ''{\"error\":\"ids is required\"}'' w, Returned))
        else
          let wantedMonitorIds = Split ids (CHR '','') in
          if \<not> all_known (monitorIds e) wantedMonitorIds then
            (let w = Header_Set ''Content-Type'' ''application/json'' w;
                 w = WriteHeader StatusBadRequest w
             in (Write ''{\"error\": \"id is not in the list of monitors\"}'' w, Returned))
          else
            let w = Header_Set ''Content-Type'' ''text/event-stream'' w;
                w = Header_Set ''Cache-Control'' ''no-cache'' w;
                w = Header_Set ''Connection'' ''keep-alive'' w;
                w = WriteHeader StatusOK w;
                w = emit (CallNewSubscriber (centralBroker s) wantedMonitorIds) w
            in case NewSubscriber e (centralBroker s) wantedMonitorIds of
                 Inl err \<Rightarrow> (subscribe_failed e err w, Returned)
               | Inr sub \<Rightarrow> stream e sub polls w)"

text \<open>Lines 198-201 and 241-244.\<close>

definition bad_interval :: "('b, 's) exchange \<Rightarrow> ('b, 's) exchange" where
  "bad_interval w =
     (let w = WriteHeader StatusBadRequest w;
          w = Header_Set ''Content-Type'' ''application/json'' w
      in Write ''{\"error\": \"interval must be hourly, daily, or raw\"}'' w)"

text \<open>Lines 247-265: the snapshot document is serialized and sent.\<close>

definition send_snapshot ::
  "('a, 'b, 'r, 's) env \<Rightarrow> 'a list \<Rightarrow> ('b, 's) exchange \<Rightarrow> ('b, 's) exchange" where
  "send_snapshot e monitorHistorical w =
     (case Marshal_snapshot e monitorHistorical of
        Inl err \<Rightarrow>
          (let w = WriteHeader StatusInternalServerError w;
               w = Header_Set ''Content-Type'' ''application/json'' w
           in case Marshal_error e err of
                Inl _ \<Rightarrow> Write ''{\"error\": \"internal server error\"}'' w
              | Inr errBytes \<Rightarrow> Write errBytes w)
      | Inr data \<Rightarrow>
          (let w = WriteHeader StatusOK w;
               w = Header_Set ''Content-Type'' ''application/json'' w
           in Write data w))"

definition staticSnapshot ::
  "('a, 'b, 'r, 's) env \<Rightarrow> ('r, 'b) Server \<Rightarrow> request \<Rightarrow> ('b, 's) exchange
     \<Rightarrow> ('b, 's) exchange" where
  "staticSnapshot e s r w =
     (let monitorId = Get (query r) ''id'' in
      if monitorId = [] then
        (let w = WriteHeader StatusBadRequest w;
             w = Header_Set ''Content-Type'' ''application/json'' w
         in Write ''{\"error\": \"id is required\"}'' w)
      else
        let interval = Get (query r) ''interval'';
            interval = (if interval = [] then ''hourly'' else interval)
        in
        if interval \<noteq> ''hourly'' \<and> interval \<noteq> ''daily'' \<and> interval \<noteq> ''raw'' then bad_interval w
        else if \<not> Contains (monitorIds e) monitorId then
          (let w = WriteHeader StatusBadRequest w;
               w = Header_Set ''Content-Type'' ''application/json'' w
           in Write ''{\"error\": \"id is not in the list of monitors\"}'' w)
        else if interval = ''raw'' then
          (let w = emit (CallReadRaw monitorId) w
           in case ReadRawHistorical e (historicalReader s) monitorId of
                Inl err \<Rightarrow> WriteHeader StatusInternalServerError w
              | Inr monitorHistorical \<Rightarrow> send_snapshot e monitorHistorical w)
        else if interval = ''hourly'' then
          (let w = emit (CallReadHourly monitorId) w
           in case ReadHourlyHistorical e (historicalReader s) monitorId of
                Inl err \<Rightarrow> WriteHeader StatusInternalServerError w
              | Inr monitorHistorical \<Rightarrow> send_snapshot e monitorHistorical w)
        else if interval = ''daily'' then
          (let w = emit (CallReadDaily monitorId) w
           in case ReadDailyHistorical e (historicalReader s) monitorId of
                Inl err \<Rightarrow> WriteHeader StatusInternalServerError w
              | Inr monitorHistorical \<Rightarrow> send_snapshot e monitorHistorical w)
        else bad_interval w)"

subsection \<open>Reading the log\<close>

text \<open>The projections of the log of calls that the properties below speak about.\<close>

fun store_reads :: "('b, 's) call list \<Rightarrow> ('b, 's) call list" where
  "store_reads [] = []"
| "store_reads (CallReadRaw i # cs) = CallReadRaw i # store_reads cs"
| "store_reads (CallReadHourly i # cs) = CallReadHourly i # store_reads cs"
| "store_reads (CallReadDaily i # cs) = CallReadDaily i # store_reads cs"
| "store_reads (_ # cs) = store_reads cs"

fun subscriptions :: "('b, 's) call list \<Rightarrow> ('b option \<times> string list) list" where
  "subscriptions [] = []"
| "subscriptions (CallNewSubscriber b ids # cs) = (b, ids) # subscriptions cs"
| "subscriptions (_ # cs) = subscriptions cs"

fun listens :: "('b, 's) call list \<Rightarrow> 's list" where
  "listens [] = []"
| "listens (CallListen sub # cs) = sub # listens cs"
| "listens (_ # cs) = listens cs"

fun sleeps :: "('b, 's) call list \<Rightarrow> nat list" where
  "sleeps [] = []"
| "sleeps (CallSleep ms # cs) = ms # sleeps cs"
| "sleeps (_ # cs) = sleeps cs"



fun iterations :: "'a poll list \<Rightarrow> nat" where
  "iterations [] = 0"
| "iterations (p # ps) =
     (case select p of
        CaseDone \<Rightarrow> 1
      | CaseRecv d \<Rightarrow> Suc (iterations ps)
      | CaseDefault \<Rightarrow> Suc (iterations ps))"

fun idle_iterations :: "'a poll list \<Rightarrow> nat" where
  "idle_iterations [] = 0"
| "idle_iterations (p # ps) =
     (case select p of
        CaseDone \<Rightarrow> 0
      | CaseRecv d \<Rightarrow> idle_iterations ps
      | CaseDefault \<Rightarrow> Suc (idle_iterations ps))"

fun cancelled :: "'a poll list \<Rightarrow> bool" where
  "cancelled [] = False"
| "cancelled (p # ps) =
     (case select p of
        CaseDone \<Rightarrow> True
      | CaseRecv d \<Rightarrow> cancelled ps
      | CaseDefault \<Rightarrow> cancelled ps)"

text \<open>
  The bytes in the variable \<^verbatim>\<open>marshaled\<close> after line 96 (and 165): what \<^verbatim>\<open>json.Marshal\<close>
  returned for the sample, its JSON when the serialization succeeds and nil when it
  fails.
\<close>

definition marshaled :: "('a, 'b, 'r, 's) env \<Rightarrow> 'a \<Rightarrow> string" where
  "marshaled e d = (case Marshal_sample e d of Inl err \<Rightarrow> [] | Inr bs \<Rightarrow> bs)"

text \<open>The event that the loop sends for a sample whose serialization is \<open>js\<close>.\<close>

definition event :: "string \<Rightarrow> ('b, 's) call list" where
  "event js = [CallWrite (''data: '' @ js @ [nl, nl]), CallFlush]"

subsection \<open>A concrete environment\<close>

text \<open>
  Two monitors; a subscriber is always granted; the raw tier cannot be read; the sample
  \<open>0\<close> cannot be serialized.
\<close>

definition example_env :: "(nat, nat, nat, nat) env" where
  "example_env =
     \<lparr> monitorIds = [''api'', ''web''],
       NewSubscriber = (\<lambda>b ids. Inr 7),
       ReadRawHistorical = (\<lambda>r i. Inl ''connection refused''),
       ReadHourlyHistorical = (\<lambda>r i. Inr [1, 2]),
       ReadDailyHistorical = (\<lambda>r i. Inr [3]),
       Marshal_sample = (\<lambda>d. if d = 0 then Inl ''unsupported value'' else Inr ''{}''),
       Marshal_error = (\<lambda>m. Inr (''{\"error\":\"'' @ m @ ''\"}'')),
       Marshal_snapshot = (\<lambda>h. Inr ''{\"metadata\":{},\"historical\":[]}'') \<rparr>"

definition example_config :: "(nat, nat) ServerConfig" where
  "example_config =
     \<lparr> SSLRedirect = False, Environment = ''development'', Hostname = ''localhost'',
       Port = ''8080'', StaticPath = ''dist'', MonitorHistoricalReader = Some 1,
       CentralBroker = Some 2 \<rparr>"

definition idle_poll :: "nat poll" where
  "idle_poll = \<lparr> ctx_done = False, ready = None, pick_done = False, write_err = None \<rparr>"

definition sample_poll :: "nat \<Rightarrow> nat poll" where
  "sample_poll d = \<lparr> ctx_done = False, ready = Some d, pick_done = False, write_err = None \<rparr>"

definition done_poll :: "nat poll" where
  "done_poll = \<lparr> ctx_done = True, ready = None, pick_done = False, write_err = None \<rparr>"

definition example_server :: "(nat, nat) Server" where
  "example_server = Handler (NewServer example_config)"

definition example_polls :: "nat poll list" where
  "example_polls = [idle_poll, sample_poll 5, idle_poll, sample_poll 6, done_poll, sample_poll 8]"


definition example_by :: request where
  "example_by = \<lparr> query = [''ids'' \<mapsto> [''web,api'']] \<rparr>"


section \<open>Properties\<close>

subsection \<open>The log of calls\<close>

lemma Contains_iff: "Contains xs v \<longleftrightarrow> v \<in> set xs"
  by (induction xs) auto

lemma all_known_iff: "all_known known ids \<longleftrightarrow> set ids \<subseteq> set known"
  by (induction ids) (auto simp: Contains_iff)

lemma calls_emit: "calls (emit c w) = calls w @ [c]"
  by (simp add: emit_def)

lemma calls_commit: "calls (commit code w) = calls w"
  by (simp add: commit_def split: option.split)

lemma calls_WriteHeader: "calls (WriteHeader code w) = calls w @ [CallWriteHeader code]"
  by (simp add: WriteHeader_def calls_commit calls_emit)

lemma calls_Header_Set: "calls (Header_Set k v w) = calls w @ [CallHeaderSet k v]"
  by (simp add: Header_Set_def calls_emit)

lemma calls_Write: "calls (Write bs w) = calls w @ [CallWrite bs]"
  by (simp add: Write_def Let_def calls_commit calls_emit)

lemma calls_Flush: "calls (Flush w) = calls w @ [CallFlush]"
  by (simp add: Flush_def calls_commit calls_emit)

lemma calls_Printf: "calls (Printf msg w) = calls w @ [CallLog msg]"
  by (simp add: Printf_def calls_emit)

lemma calls_Sleep: "calls (Sleep ms w) = calls w @ [CallSleep ms]"
  by (simp add: Sleep_def calls_emit)

lemmas calls_simps = calls_emit calls_WriteHeader calls_Header_Set calls_Write calls_Flush
  calls_Printf calls_Sleep

lemma calls_deliver:
  "calls (deliver e d werr w) =
     calls w
     @ (case Marshal_sample e d of
          Inl err \<Rightarrow> [CallLog (''failed to marshal data: '' @ err)] | Inr bs \<Rightarrow> [])
     @ [CallWrite (''data: '' @ (case Marshal_sample e d of Inl err \<Rightarrow> [] | Inr bs \<Rightarrow> bs) @ [nl, nl])]
     @ (case werr of Some err \<Rightarrow> [CallLog (''failed to write data: '' @ err)] | None \<Rightarrow> [])
     @ [CallFlush]"
  by (simp add: deliver_def calls_simps split: sum.split option.split)


lemma subscriptions_append: "subscriptions (xs @ ys) = subscriptions xs @ subscriptions ys"
  by (induction xs rule: subscriptions.induct) simp_all

lemma listens_append: "listens (xs @ ys) = listens xs @ listens ys"
  by (induction xs rule: listens.induct) simp_all

lemma sleeps_append: "sleeps (xs @ ys) = sleeps xs @ sleeps ys"
  by (induction xs rule: sleeps.induct) simp_all


subsection \<open>The delivery loop\<close>

lemma stream_listens:
  "listens (calls (fst (stream e sub ps w))) = listens (calls w) @ replicate (iterations ps) sub"
proof (induction ps arbitrary: w)
  case Nil
  show ?case by simp
next
  case (Cons p ps)
  show ?case
    by (cases "select p")
       (simp_all add: Cons.IH calls_simps calls_deliver listens_append replicate_app_Cons_same
          split: sum.split option.split)
qed

lemma stream_sleeps:
  "sleeps (calls (fst (stream e sub ps w))) = sleeps (calls w) @ replicate (idle_iterations ps) 10"
proof (induction ps arbitrary: w)
  case Nil
  show ?case by simp
next
  case (Cons p ps)
  show ?case
    by (cases "select p")
       (simp_all add: Cons.IH calls_simps calls_deliver sleeps_append replicate_app_Cons_same
          split: sum.split option.split)
qed

lemma stream_subscriptions:
  "subscriptions (calls (fst (stream e sub ps w))) = subscriptions (calls w)"
proof (induction ps arbitrary: w)
  case Nil
  show ?case by simp
next
  case (Cons p ps)
  show ?case
    by (cases "select p")
       (simp_all add: Cons.IH calls_simps calls_deliver subscriptions_append
          split: sum.split option.split)
qed

lemma stream_outcome: "snd (stream e sub ps w) = (if cancelled ps then Returned else Running)"
proof (induction ps arbitrary: w)
  case Nil
  show ?case by simp
next
  case (Cons p ps)
  show ?case by (cases "select p") (simp_all add: Cons.IH)
qed


subsection \<open>The response writer\<close>

lemma emit_fields:
  "status (emit c w) = status w" "body (emit c w) = body w" "header (emit c w) = header w"
  "sent_header (emit c w) = sent_header w" "is_flusher (emit c w) = is_flusher w"
  by (simp_all add: emit_def)

lemma commit_fields:
  "status (commit code w) = (case status w of None \<Rightarrow> Some code | Some c \<Rightarrow> Some c)"
  "sent_header (commit code w) = (case status w of None \<Rightarrow> header w | Some c \<Rightarrow> sent_header w)"
  "body (commit code w) = body w" "header (commit code w) = header w"
  "is_flusher (commit code w) = is_flusher w"
  by (simp_all add: commit_def split: option.split)

lemma WriteHeader_fields:
  "status (WriteHeader code w) = (case status w of None \<Rightarrow> Some code | Some c \<Rightarrow> Some c)"
  "sent_header (WriteHeader code w) = (case status w of None \<Rightarrow> header w | Some c \<Rightarrow> sent_header w)"
  "body (WriteHeader code w) = body w" "header (WriteHeader code w) = header w"
  "is_flusher (WriteHeader code w) = is_flusher w"
  by (simp_all add: WriteHeader_def commit_fields emit_fields split: option.split)

lemma Header_Set_fields:
  "status (Header_Set k v w) = status w" "sent_header (Header_Set k v w) = sent_header w"
  "body (Header_Set k v w) = body w" "header (Header_Set k v w) = (header w)(k \<mapsto> v)"
  "is_flusher (Header_Set k v w) = is_flusher w"
  by (simp_all add: Header_Set_def emit_fields)

lemma Write_fields:
  "status (Write bs w) = (case status w of None \<Rightarrow> Some StatusOK | Some c \<Rightarrow> Some c)"
  "sent_header (Write bs w) = (case status w of None \<Rightarrow> header w | Some c \<Rightarrow> sent_header w)"
  "body (Write bs w) = body w @ bs" "header (Write bs w) = header w"
  "is_flusher (Write bs w) = is_flusher w"
  by (simp_all add: Write_def Let_def commit_fields emit_fields split: option.split)

lemma fresh_fields:
  "status (fresh f) = None" "sent_header (fresh f) = Map.empty" "body (fresh f) = []"
  "header (fresh f) = Map.empty" "is_flusher (fresh f) = f" "calls (fresh f) = []"
  by (simp_all add: fresh_def)

lemmas writer_fields = emit_fields WriteHeader_fields Header_Set_fields Write_fields fresh_fields
  StatusOK_def StatusBadRequest_def StatusPreconditionFailed_def StatusInternalServerError_def

subsection \<open>Unfolding the model on concrete inputs\<close>

lemmas example_defs = example_env_def example_config_def idle_poll_def sample_poll_def
  done_poll_def NewServer_def example_server_def example_polls_def example_by_def

lemmas writer_defs = fresh_def WriteHeader_def Header_Set_def Write_def Flush_def Printf_def
  Sleep_def commit_def emit_def StatusOK_def StatusBadRequest_def StatusPreconditionFailed_def
  StatusInternalServerError_def

lemmas handler_defs = snapshotOverview_def snapshotBy_def staticSnapshot_def not_flusher_def
  subscribe_failed_def bad_interval_def send_snapshot_def deliver_def select_def Get_def

section \<open>The claims\<close>

subsection \<open>C1: error bodies\<close>

text \<open>
  C1 says that every failed request is answered with a body \<^verbatim>\<open>{"error": "<message>"}\<close>,
  in particular when a store read fails in \<^verbatim>\<open>staticSnapshot\<close>. The code does not do that
  on a failed store read (lines 218-222, 226-230, 234-238, each under the comment
  \<^verbatim>\<open>TODO: Handle error properly\<close>): it calls \<^verbatim>\<open>WriteHeader(500)\<close> and returns. For the
  request \<^verbatim>\<open>id=api&interval=raw\<close> against a raw tier that cannot be read, the response
  has status 500 and an empty body; the only calls are the read and \<^verbatim>\<open>WriteHeader\<close>.
\<close>

theorem staticSnapshot_store_failure_has_no_body:
  "ReadRawHistorical example_env (historicalReader example_server) ''api''
     = Inl ''connection refused''
   \<and> status (staticSnapshot example_env example_server
        \<lparr> query = [''id'' \<mapsto> [''api''], ''interval'' \<mapsto> [''raw'']] \<rparr> (fresh True)) = Some 500
   \<and> body (staticSnapshot example_env example_server
        \<lparr> query = [''id'' \<mapsto> [''api''], ''interval'' \<mapsto> [''raw'']] \<rparr> (fresh True)) = []
   \<and> calls (staticSnapshot example_env example_server
        \<lparr> query = [''id'' \<mapsto> [''api''], ''interval'' \<mapsto> [''raw'']] \<rparr> (fresh True))
       = [CallReadRaw ''api'', CallWriteHeader 500]"
  by (simp add: example_defs writer_defs handler_defs)

subsection \<open>C2: how the delivery loop waits\<close>

text \<open>
  C2, as amended: on a streaming connection (\<^verbatim>\<open>snapshotOverview\<close> or \<^verbatim>\<open>snapshotBy\<close> once
  \<^verbatim>\<open>NewSubscriber\<close> has succeeded) the delivery loop polls. Every iteration is a
  non-blocking \<^verbatim>\<open>select\<close>; an iteration that finds neither a sample nor the cancellation
  sleeps for a fixed 10 milliseconds, and these are the only sleeps; the handler returns
  exactly when an iteration takes the cancellation case.
\<close>

theorem stream_polls_with_fixed_sleep:
  "(NewSubscriber e (centralBroker s) (monitorIds e) = Inr sub \<longrightarrow>
      sleeps (calls (fst (snapshotOverview e s polls (fresh True))))
        = replicate (idle_iterations polls) 10
      \<and> snd (snapshotOverview e s polls (fresh True))
        = (if cancelled polls then Returned else Running))
   \<and> (Get (query r) ''ids'' \<noteq> []
      \<and> all_known (monitorIds e) (Split (Get (query r) ''ids'') (CHR '',''))
      \<and> NewSubscriber e (centralBroker s) (Split (Get (query r) ''ids'') (CHR '','')) = Inr sub' \<longrightarrow>
      sleeps (calls (fst (snapshotBy e s r polls (fresh True))))
        = replicate (idle_iterations polls) 10
      \<and> snd (snapshotBy e s r polls (fresh True))
        = (if cancelled polls then Returned else Running))"
  by (simp add: snapshotOverview_def snapshotBy_def Let_def stream_sleeps stream_outcome
      calls_simps sleeps_append fresh_def)

text \<open>
  C2, an instance: six polls, of which the first and the third find nothing and the
  fifth finds the context cancelled. Both handlers sleep twice and return.
\<close>

theorem stream_polls_with_fixed_sleep_witness:
  "NewSubscriber example_env (centralBroker example_server) (monitorIds example_env) = Inr 7
   \<and> sleeps (calls (fst (snapshotOverview example_env example_server example_polls (fresh True))))
       = [10, 10]
   \<and> snd (snapshotOverview example_env example_server example_polls (fresh True)) = Returned
   \<and> Get (query example_by) ''ids'' \<noteq> []
   \<and> all_known (monitorIds example_env) (Split (Get (query example_by) ''ids'') (CHR '',''))
   \<and> NewSubscriber example_env (centralBroker example_server)
        (Split (Get (query example_by) ''ids'') (CHR '','')) = Inr 7
   \<and> sleeps (calls (fst (snapshotBy example_env example_server example_by example_polls (fresh True))))
       = [10, 10]
   \<and> snd (snapshotBy example_env example_server example_by example_polls (fresh True)) = Returned"
  using stream_polls_with_fixed_sleep
    [of example_env example_server 7 example_polls example_by 7]
  by (simp add: example_defs Get_def select_def)

text \<open>
  C2 as stated fails: it says that the handler never waits by a fixed-interval
  sleep-poll. With two polls at which no sample is ready and the context is not
  cancelled, \<^verbatim>\<open>snapshotOverview\<close> calls \<^verbatim>\<open>Listen\<close> and sleeps 10 milliseconds, twice.
\<close>

theorem snapshotOverview_sleep_poll_counterexample:
  "calls (fst (snapshotOverview example_env example_server [idle_poll, idle_poll] (fresh True)))
     = [CallNewSubscriber None [''api'', ''web''],
        CallListen 7, CallSleep 10, CallListen 7, CallSleep 10]"
  by (simp add: example_defs writer_defs handler_defs)

subsection \<open>C3: the broker of the server\<close>

text \<open>
  C3: for every configuration, the \<^verbatim>\<open>Server\<close> that \<^verbatim>\<open>NewServer\<close> constructs has a nil
  \<^verbatim>\<open>centralBroker\<close>, whatever \<^verbatim>\<open>CentralBroker\<close> the configuration holds, and every
  \<^verbatim>\<open>NewSubscriber\<close> call that \<^verbatim>\<open>snapshotOverview\<close> or \<^verbatim>\<open>snapshotBy\<close> makes on that server
  passes the nil broker.
\<close>

theorem NewServer_drops_CentralBroker:
  "centralBroker (Handler (NewServer config)) = None
   \<and> fst ` set (subscriptions (calls (fst
        (snapshotOverview e (Handler (NewServer config)) polls (fresh f))))) \<subseteq> {None}
   \<and> fst ` set (subscriptions (calls (fst
        (snapshotBy e (Handler (NewServer config)) r polls (fresh f))))) \<subseteq> {None}"
  by (simp add: NewServer_def snapshotOverview_def snapshotBy_def Let_def not_flusher_def
      subscribe_failed_def stream_subscriptions calls_simps subscriptions_append fresh_def
      split: sum.split)

text \<open>
  C3, an instance: the configuration holds the broker \<open>2\<close>, and both handlers subscribe
  with the nil broker.
\<close>

theorem NewServer_drops_CentralBroker_witness:
  "CentralBroker example_config = Some 2
   \<and> centralBroker (Handler (NewServer example_config)) = None
   \<and> subscriptions (calls (fst
        (snapshotOverview example_env (Handler (NewServer example_config)) example_polls (fresh True))))
       = [(None, [''api'', ''web''])]
   \<and> subscriptions (calls (fst
        (snapshotBy example_env (Handler (NewServer example_config)) example_by example_polls (fresh True))))
       = [(None, [''web'', ''api''])]"
  using NewServer_drops_CentralBroker [of example_config example_env example_polls True example_by]
  by (simp add: example_env_def example_config_def example_by_def NewServer_def
      snapshotOverview_def snapshotBy_def Get_def Let_def stream_subscriptions calls_simps
      subscriptions_append fresh_def)

subsection \<open>C4: an unsupported interval\<close>

text \<open>
  C4, as amended: for every request to \<^verbatim>\<open>staticSnapshot\<close> whose \<^verbatim>\<open>interval\<close> parameter has a
  first value that is not empty and is none of \<^verbatim>\<open>raw\<close>, \<^verbatim>\<open>hourly\<close>, \<^verbatim>\<open>daily\<close>, the
  response has status 400 and a JSON error body (the one about the interval, or the one
  about the missing id when the id is empty), and none of the three store reads is
  called.
\<close>

theorem staticSnapshot_unsupported_interval:
  assumes "Get (query r) ''interval'' \<notin> {[], ''raw'', ''hourly'', ''daily''}"
  shows "status (staticSnapshot e s r (fresh f)) = Some 400
    \<and> body (staticSnapshot e s r (fresh f))
        = (if Get (query r) ''id'' = [] then ''{\"error\": \"id is required\"}''
           else ''{\"error\": \"interval must be hourly, daily, or raw\"}'')
    \<and> store_reads (calls (staticSnapshot e s r (fresh f))) = []"
  using assms
  by (simp add: staticSnapshot_def bad_interval_def Let_def writer_defs)

text \<open>C4, an instance: the request \<^verbatim>\<open>id=api&interval=weekly\<close>.\<close>

theorem staticSnapshot_unsupported_interval_witness:
  "Get (query \<lparr> query = [''id'' \<mapsto> [''api''], ''interval'' \<mapsto> [''weekly'']] \<rparr>) ''interval''
     \<notin> {[], ''raw'', ''hourly'', ''daily''}
   \<and> status (staticSnapshot example_env example_server
        \<lparr> query = [''id'' \<mapsto> [''api''], ''interval'' \<mapsto> [''weekly'']] \<rparr> (fresh True)) = Some 400
   \<and> body (staticSnapshot example_env example_server
        \<lparr> query = [''id'' \<mapsto> [''api''], ''interval'' \<mapsto> [''weekly'']] \<rparr> (fresh True))
       = ''{\"error\": \"interval must be hourly, daily, or raw\"}''
   \<and> store_reads (calls (staticSnapshot example_env example_server
        \<lparr> query = [''id'' \<mapsto> [''api''], ''interval'' \<mapsto> [''weekly'']] \<rparr> (fresh True))) = []"
  using staticSnapshot_unsupported_interval
    [of "\<lparr> query = [''id'' \<mapsto> [''api''], ''interval'' \<mapsto> [''weekly'']] \<rparr>"
        example_env example_server True]
  by (simp add: Get_def)

text \<open>
  C4 as stated fails: it speaks of every request whose \<^verbatim>\<open>interval\<close> parameter is present
  and is none of the three names. In the request \<^verbatim>\<open>id=api&interval=\<close> the parameter is
  present with the empty value; line 193 takes the empty value for a missing one, the
  hourly tier is read and the response has status 200.
\<close>

theorem staticSnapshot_empty_interval_counterexample:
  "query \<lparr> query = [''id'' \<mapsto> [''api''], ''interval'' \<mapsto> ['''']] \<rparr> ''interval'' = Some ['''']
   \<and> status (staticSnapshot example_env example_server
        \<lparr> query = [''id'' \<mapsto> [''api''], ''interval'' \<mapsto> ['''']] \<rparr> (fresh True)) = Some 200
   \<and> store_reads (calls (staticSnapshot example_env example_server
        \<lparr> query = [''id'' \<mapsto> [''api''], ''interval'' \<mapsto> ['''']] \<rparr> (fresh True)))
       = [CallReadHourly ''api'']"
  by (simp add: example_defs writer_defs handler_defs)

subsection \<open>C5: unknown ids in snapshotBy\<close>

text \<open>
  C5, as amended: for every request to \<^verbatim>\<open>snapshotBy\<close> in which at least one id of the
  comma-separated list is not a known monitor, the handler returns without ever calling
  \<^verbatim>\<open>NewSubscriber\<close>, and the response has status 400 when the writer is a flusher and
  status 412 when it is not.
\<close>

theorem snapshotBy_unknown_id_rejected:
  assumes "\<exists>i \<in> set (Split (Get (query r) ''ids'') (CHR '','')). i \<notin> set (monitorIds e)"
  shows "status (fst (snapshotBy e s r polls (fresh f))) = Some (if f then 400 else 412)
    \<and> subscriptions (calls (fst (snapshotBy e s r polls (fresh f)))) = []
    \<and> snd (snapshotBy e s r polls (fresh f)) = Returned"
proof -
  from assms have "\<not> all_known (monitorIds e) (Split (Get (query r) ''ids'') (CHR '',''))"
    by (auto simp: all_known_iff)
  then show ?thesis
    by (simp add: snapshotBy_def not_flusher_def Let_def writer_defs)
qed

text \<open>C5, an instance: the request \<^verbatim>\<open>ids=api,zzz\<close>, where \<^verbatim>\<open>zzz\<close> is no monitor.\<close>

theorem snapshotBy_unknown_id_rejected_witness:
  "(\<exists>i \<in> set (Split (Get (query \<lparr> query = [''ids'' \<mapsto> [''api,zzz'']] \<rparr>) ''ids'') (CHR '','')).
       i \<notin> set (monitorIds example_env))
   \<and> status (fst (snapshotBy example_env example_server
        \<lparr> query = [''ids'' \<mapsto> [''api,zzz'']] \<rparr> example_polls (fresh True))) = Some 400
   \<and> subscriptions (calls (fst (snapshotBy example_env example_server
        \<lparr> query = [''ids'' \<mapsto> [''api,zzz'']] \<rparr> example_polls (fresh True)))) = []
   \<and> snd (snapshotBy example_env example_server
        \<lparr> query = [''ids'' \<mapsto> [''api,zzz'']] \<rparr> example_polls (fresh True)) = Returned"
  using snapshotBy_unknown_id_rejected
    [of "\<lparr> query = [''ids'' \<mapsto> [''api,zzz'']] \<rparr>" example_env example_server example_polls True]
  by (simp add: Get_def example_env_def)

text \<open>
  C5 as stated fails: it promises status 400 for every request with an unknown id. When
  the writer is not a flusher, the guard of lines 115-121 answers first, with status 412.
\<close>

theorem snapshotBy_not_flusher_counterexample:
  "\<not> all_known (monitorIds example_env) (Split ''api,zzz'' (CHR '',''))
   \<and> status (fst (snapshotBy example_env example_server
        \<lparr> query = [''ids'' \<mapsto> [''api,zzz'']] \<rparr> [] (fresh False))) = Some 412"
  by (simp add: example_defs writer_defs handler_defs)

subsection \<open>C6: one event per sample\<close>




subsection \<open>C7: a sample that cannot be serialized\<close>

text \<open>
  C7 says that when serializing a sample fails, the error is logged and nothing is
  written to the client for that sample. The code logs the error (lines 97-99 and
  166-168) and then goes on to the \<^verbatim>\<open>Write\<close> with the nil bytes that \<^verbatim>\<open>json.Marshal\<close>
  returned: for a delivered sample that cannot be serialized, \<^verbatim>\<open>snapshotOverview\<close> logs,
  writes the event \<^verbatim>\<open>data: \n\n\<close> with an empty payload and flushes it.
\<close>

theorem stream_marshal_failure_still_writes:
  "Marshal_sample example_env 0 = Inl ''unsupported value''
   \<and> calls (fst (snapshotOverview example_env example_server [sample_poll 0] (fresh True)))
       = [CallNewSubscriber None [''api'', ''web''], CallListen 7,
          CallLog ''failed to marshal data: unsupported value'',
          CallWrite (''data: '' @ [nl, nl]), CallFlush]
   \<and> body (fst (snapshotOverview example_env example_server [sample_poll 0] (fresh True)))
       = ''data: '' @ [nl, nl]"
  by (simp add: example_defs writer_defs handler_defs)

subsection \<open>C8: calls of Listen\<close>

text \<open>
  C8, as amended: on a streaming connection (\<^verbatim>\<open>snapshotOverview\<close> or \<^verbatim>\<open>snapshotBy\<close> once
  \<^verbatim>\<open>NewSubscriber\<close> has succeeded) the handler creates exactly one subscriber and calls
  \<^verbatim>\<open>Listen\<close> on that subscriber once in every iteration of the delivery loop, so as many
  times as the loop executes its \<^verbatim>\<open>select\<close>.
\<close>

theorem listen_once_per_iteration:
  "(NewSubscriber e (centralBroker s) (monitorIds e) = Inr sub \<longrightarrow>
      subscriptions (calls (fst (snapshotOverview e s polls (fresh True))))
        = [(centralBroker s, monitorIds e)]
      \<and> listens (calls (fst (snapshotOverview e s polls (fresh True))))
        = replicate (iterations polls) sub)
   \<and> (Get (query r) ''ids'' \<noteq> []
      \<and> all_known (monitorIds e) (Split (Get (query r) ''ids'') (CHR '',''))
      \<and> NewSubscriber e (centralBroker s) (Split (Get (query r) ''ids'') (CHR '','')) = Inr sub' \<longrightarrow>
      subscriptions (calls (fst (snapshotBy e s r polls (fresh True))))
        = [(centralBroker s, Split (Get (query r) ''ids'') (CHR '',''))]
      \<and> listens (calls (fst (snapshotBy e s r polls (fresh True))))
        = replicate (iterations polls) sub')"
  by (simp add: snapshotOverview_def snapshotBy_def Let_def stream_listens stream_subscriptions
      calls_simps listens_append subscriptions_append fresh_def)

text \<open>
  C8, an instance: the loop executes five \<^verbatim>\<open>select\<close> statements (the fifth takes the
  cancellation case), and both handlers call \<^verbatim>\<open>Listen\<close> five times on the subscriber \<open>7\<close>.
\<close>

theorem listen_once_per_iteration_witness:
  "NewSubscriber example_env (centralBroker example_server) (monitorIds example_env) = Inr 7
   \<and> subscriptions (calls (fst (snapshotOverview example_env example_server example_polls (fresh True))))
       = [(None, [''api'', ''web''])]
   \<and> listens (calls (fst (snapshotOverview example_env example_server example_polls (fresh True))))
       = [7, 7, 7, 7, 7]
   \<and> Get (query example_by) ''ids'' \<noteq> []
   \<and> all_known (monitorIds example_env) (Split (Get (query example_by) ''ids'') (CHR '',''))
   \<and> NewSubscriber example_env (centralBroker example_server)
        (Split (Get (query example_by) ''ids'') (CHR '','')) = Inr 7
   \<and> subscriptions (calls (fst (snapshotBy example_env example_server example_by example_polls (fresh True))))
       = [(None, [''web'', ''api''])]
   \<and> listens (calls (fst (snapshotBy example_env example_server example_by example_polls (fresh True))))
       = [7, 7, 7, 7, 7]"
  using listen_once_per_iteration
    [of example_env example_server 7 example_polls example_by 7]
  by (simp add: example_defs Get_def select_def)

text \<open>
  C8 as stated fails: it says that \<^verbatim>\<open>Listen\<close> is invoked at most once over the lifetime of
  the connection. With two polls that find nothing, \<^verbatim>\<open>snapshotOverview\<close> has already
  called \<^verbatim>\<open>Listen\<close> twice.
\<close>

theorem snapshotOverview_listen_twice_counterexample:
  "listens (calls (fst (snapshotOverview example_env example_server
       [idle_poll, idle_poll] (fresh True)))) = [7, 7]"
  by (simp add: example_defs writer_defs handler_defs)

subsection \<open>C9: the default interval\<close>



subsection \<open>C10: a failed subscription in snapshotBy\<close>

text \<open>
  C10: in \<^verbatim>\<open>snapshotBy\<close>, when the request passes validation and \<^verbatim>\<open>NewSubscriber\<close> returns
  an error, the three event-stream headers and status 200 were committed before
  \<^verbatim>\<open>NewSubscriber\<close> was called; the later \<^verbatim>\<open>WriteHeader(500)\<close> changes neither, and the
  response is a 200 with the event-stream headers whose body is the JSON error object.
\<close>

theorem snapshotBy_subscribe_error_after_commit:
  assumes "Get (query r) ''ids'' \<noteq> []"
    and "all_known (monitorIds e) (Split (Get (query r) ''ids'') (CHR '',''))"
    and "NewSubscriber e (centralBroker s) (Split (Get (query r) ''ids'') (CHR '','')) = Inl err"
  shows "status (fst (snapshotBy e s r polls (fresh True))) = Some 200
    \<and> sent_header (fst (snapshotBy e s r polls (fresh True)))
        = [''Content-Type'' \<mapsto> ''text/event-stream'', ''Cache-Control'' \<mapsto> ''no-cache'',
           ''Connection'' \<mapsto> ''keep-alive'']
    \<and> body (fst (snapshotBy e s r polls (fresh True)))
        = (case Marshal_error e (''failed to subscribe to endpoints: '' @ err) of
             Inl _ \<Rightarrow> ''{\"error\": \"internal server error\"}''
           | Inr errBytes \<Rightarrow> errBytes)
    \<and> calls (fst (snapshotBy e s r polls (fresh True)))
        = [CallHeaderSet ''Content-Type'' ''text/event-stream'',
           CallHeaderSet ''Cache-Control'' ''no-cache'',
           CallHeaderSet ''Connection'' ''keep-alive'',
           CallWriteHeader 200,
           CallNewSubscriber (centralBroker s) (Split (Get (query r) ''ids'') (CHR '','')),
           CallWriteHeader 500,
           CallHeaderSet ''Content-Type'' ''application/json'',
           CallWrite (body (fst (snapshotBy e s r polls (fresh True))))]
    \<and> snd (snapshotBy e s r polls (fresh True)) = Returned"
proof -
  let ?w = "emit (CallNewSubscriber (centralBroker s) (Split (Get (query r) ''ids'') (CHR '','')))
      (WriteHeader StatusOK
        (Header_Set ''Connection'' ''keep-alive''
          (Header_Set ''Cache-Control'' ''no-cache''
            (Header_Set ''Content-Type'' ''text/event-stream'' (fresh True)))))"
  have run: "snapshotBy e s r polls (fresh True) = (subscribe_failed e err ?w, Returned)"
    using assms by (simp add: snapshotBy_def Let_def fresh_fields)
  show ?thesis
    unfolding run
    by (simp add: subscribe_failed_def Let_def writer_fields calls_simps split: sum.split)
qed

text \<open>
  C10, an instance: the request \<^verbatim>\<open>ids=web,api\<close> against an environment in which
  \<^verbatim>\<open>NewSubscriber\<close> fails.
\<close>

theorem snapshotBy_subscribe_error_after_commit_witness:
  "Get (query example_by) ''ids'' \<noteq> []
   \<and> all_known (monitorIds example_env) (Split (Get (query example_by) ''ids'') (CHR '',''))
   \<and> NewSubscriber (example_env\<lparr> NewSubscriber := (\<lambda>b ids. Inl ''broker is nil'') \<rparr>)
        (centralBroker example_server) (Split (Get (query example_by) ''ids'') (CHR '',''))
       = Inl ''broker is nil''
   \<and> status (fst (snapshotBy (example_env\<lparr> NewSubscriber := (\<lambda>b ids. Inl ''broker is nil'') \<rparr>)
        example_server example_by [] (fresh True))) = Some 200
   \<and> body (fst (snapshotBy (example_env\<lparr> NewSubscriber := (\<lambda>b ids. Inl ''broker is nil'') \<rparr>)
        example_server example_by [] (fresh True)))
       = ''{\"error\":\"failed to subscribe to endpoints: broker is nil\"}''"
  using snapshotBy_subscribe_error_after_commit
    [of example_by "example_env\<lparr> NewSubscriber := (\<lambda>b ids. Inl ''broker is nil'') \<rparr>"
        example_server "''broker is nil''" "[]"]
  by (simp add: example_env_def example_by_def Get_def)

end
